theory Spec2Isabelle
  imports Complex_Main
begin

section \<open>The generic particle source of opengate (sources/generic.py)\<close>

text \<open>
  A shallow embedding of \<^verbatim>\<open>GenericSource\<close>: the user-info record, the setter hook of
  \<^verbatim>\<open>particle\<close>, \<^verbatim>\<open>__init__\<close>, \<^verbatim>\<open>initialize\<close>, \<^verbatim>\<open>update_tac_activity\<close> and
  \<^verbatim>\<open>can_predict_number_of_events\<close>. Python numbers are modelled as \<open>int\<close> (the event
  count \<open>n\<close>) and \<open>real\<close> (physical quantities); \<^verbatim>\<open>None\<close> is \<open>None\<close>; a raised
  exception and a call of \<^verbatim>\<open>fatal\<close> are \<open>Inl\<close> values of a result type, and the state
  reached when the exception is raised is dropped.
\<close>

subsection \<open>Errors\<close>

text \<open>
  One constructor for each call of \<^verbatim>\<open>fatal\<close> in the modelled code, carrying the values
  interpolated into its message.
\<close>

datatype fatal_message =
    EnergyTypeNotFound string string
  | SpectrumTypeNotFound string string
  | HistogramLength string
  | DirectionTypeNotFound string string
  | BothNAndActivity
  | NeitherNNorActivity
  | TacSize string

datatype error =
    Fatal fatal_message
  | TypeError
  | IndexError
  | ValueError
  | AttributeError
  | SpectrumNotFound
  | BaseError

definition seq :: "error + 'a \<Rightarrow> ('a \<Rightarrow> error + 'b) \<Rightarrow> error + 'b" where
  "seq r f = (case r of Inl e \<Rightarrow> Inl e | Inr x \<Rightarrow> f x)"

subsection \<open>The user-info record\<close>

text \<open>
  The value of an ion field: the setter hook stores the result of \<^verbatim>\<open>int(...)\<close>,
  \<^verbatim>\<open>__init__\<close> stores the word itself.
\<close>

datatype pyval = PInt int | PStr string

record ion_box =
  Z :: pyval
  A :: pyval
  E :: pyval

record position_box =
  position_type :: string
  radius :: real
  size :: "real list"
  translation :: "real list"
  confine :: "string option"

record acceptance_angle_box =
  skip_policy :: string
  volumes :: "string list"
  intersection_flag :: bool
  normal_flag :: bool
  normal_vector :: "real list"
  normal_tolerance :: real

record direction_box =
  direction_type :: string
  momentum :: "real list"
  focus_point :: "real list"
  acceptance_angle :: acceptance_angle_box
  accolinearity_flag :: bool

text \<open>
  \<^verbatim>\<open>histogram_weight\<close> and \<^verbatim>\<open>histogram_energy\<close> are not keys of the default energy
  Box: \<open>None\<close> is the missing key, whose read raises.
\<close>

record energy_box =
  energy_type :: string
  mono :: real
  sigma_gauss :: real
  is_cdf :: bool
  min_energy :: "real option"
  max_energy :: "real option"
  spectrum_type :: "string option"
  histogram_weight :: "real list option"
  histogram_energy :: "real list option"

text \<open>
  The fields \<open>name\<close>, \<open>n\<close>, \<open>activity\<close>, \<open>half_life\<close> and \<open>start_time\<close> are inherited from
  \<^verbatim>\<open>SourceBase\<close>. The last four fields are not Python attributes: \<open>EnergyCDF\<close>,
  \<open>ProbabilityCDF\<close> and \<open>TAC\<close> hold the arguments of the last call of the setters
  \<^verbatim>\<open>SetEnergyCDF\<close>, \<^verbatim>\<open>SetProbabilityCDF\<close> and \<^verbatim>\<open>SetTAC\<close> of the C++ object, and
  \<open>warnings\<close> counts the calls of \<^verbatim>\<open>warning\<close>.
\<close>

record source =
  name :: string
  particle :: string
  ion :: ion_box
  weight :: real
  weight_sigma :: real
  user_particle_life_time :: real
  tac_times :: "real list option"
  tac_activities :: "real list option"
  direction_relative_to_attached_volume :: bool
  position :: position_box
  direction :: direction_box
  energy :: energy_box
  n :: int
  activity :: real
  half_life :: real
  start_time :: "real option"
  EnergyCDF :: "real list option"
  ProbabilityCDF :: "real list option"
  TAC :: "(real list \<times> real list) option"
  warnings :: nat

text \<open>
  What \<^verbatim>\<open>initialize\<close> uses and \<^verbatim>\<open>generic.py\<close> imports: the unit \<^verbatim>\<open>g4_units.keV\<close>, the
  list \<^verbatim>\<open>all_beta_plus_radionuclides\<close>, the tabulated spectra read by
  \<^verbatim>\<open>read_beta_plus_spectra\<close> (rows of energy in keV and probability),
  \<^verbatim>\<open>compute_cdf_and_total_yield\<close> (called with the probabilities and the energies,
  returning the CDF and the total yield) and \<^verbatim>\<open>SourceBase.initialize\<close> (\<open>None\<close> when
  it raises). They are parameters of the model.
\<close>

record env =
  keV :: real
  all_beta_plus_radionuclides :: "string list"
  spectra :: "string \<Rightarrow> (real \<times> real) list option"
  compute_cdf_and_total_yield :: "real list \<Rightarrow> real list \<Rightarrow> real list \<times> real"
  SourceBase_initialize :: "(real \<times> real) list \<Rightarrow> source \<Rightarrow> source option"

subsection \<open>Strings: \<^verbatim>\<open>startswith\<close>, \<^verbatim>\<open>split(" ")\<close>, \<^verbatim>\<open>int\<close>\<close>

definition startswith :: "string \<Rightarrow> string \<Rightarrow> bool" where
  "startswith s p = (take (length p) s = p)"

text \<open>\<^verbatim>\<open>s.split(c)\<close> with an explicit separator: every occurrence splits, empty words are kept.\<close>

fun split_on :: "char \<Rightarrow> string \<Rightarrow> string list" where
  "split_on c [] = [[]]"
| "split_on c (x # xs) =
     (if x = c then [] # split_on c xs
      else (case split_on c xs of w # ws \<Rightarrow> (x # w) # ws | [] \<Rightarrow> [[x]]))"

definition is_digit :: "char \<Rightarrow> bool" where
  "is_digit c = (c \<in> set ''0123456789'')"

definition is_space :: "char \<Rightarrow> bool" where
  "is_space c = (c \<in> {CHR '' '', CHR 0x09, CHR 0x0A, CHR 0x0B, CHR 0x0C, CHR 0x0D})"

definition strip :: "string \<Rightarrow> string" where
  "strip s = rev (dropWhile is_space (rev (dropWhile is_space s)))"

text \<open>Decimal digits, where a single underscore may stand between two digits.\<close>

fun digits_ok :: "string \<Rightarrow> bool" where
  "digits_ok [] = False"
| "digits_ok [c] = is_digit c"
| "digits_ok (c # d # r) =
     (is_digit c \<and> (if d = CHR ''_'' then digits_ok r else digits_ok (d # r)))"

definition digits_value :: "string \<Rightarrow> nat" where
  "digits_value s = foldl (\<lambda>v c. 10 * v + (of_char c - 48)) 0 (filter is_digit s)"

text \<open>
  \<^verbatim>\<open>int(s)\<close> for a string of ASCII characters: surrounding white space is dropped, one
  sign is allowed, anything else than decimal digits raises \<^verbatim>\<open>ValueError\<close>.
\<close>

definition py_int :: "string \<Rightarrow> error + int" where
  "py_int s =
     (let t = strip s;
          body = (case t of c # r \<Rightarrow> if c = CHR ''-'' \<or> c = CHR ''+'' then r else t | [] \<Rightarrow> t);
          neg = (case t of c # r \<Rightarrow> c = CHR ''-'' | [] \<Rightarrow> False)
      in if digits_ok body
         then Inr (if neg then - int (digits_value body) else int (digits_value body))
         else Inl ValueError)"

subsection \<open>The setter hook of \<^verbatim>\<open>particle\<close> and \<^verbatim>\<open>__init__\<close>\<close>

text \<open>
  \<^verbatim>\<open>_setter_hook_generic_source_particle(self, particle)\<close>, lines 78 to 93. The argument
  is a \<open>string\<close>, so the \<^verbatim>\<open>isinstance\<close> test passes. The result is the updated object
  and the value the hook returns.
\<close>

definition setter_hook_generic_source_particle :: "source \<Rightarrow> string \<Rightarrow> error + source \<times> string" where
  "setter_hook_generic_source_particle self p =
     (if \<not> startswith p ''ion'' then Inr (self, p)
      else
        let words = split_on CHR '' '' p in
        seq (if length words > 1
             then seq (py_int (words ! 1)) (\<lambda>v. Inr (self\<lparr>ion := (ion self)\<lparr>Z := PInt v\<rparr>\<rparr>))
             else Inr self) (\<lambda>self.
        seq (if length words > 2
             then seq (py_int (words ! 2)) (\<lambda>v. Inr (self\<lparr>ion := (ion self)\<lparr>A := PInt v\<rparr>\<rparr>))
             else Inr self) (\<lambda>self.
        seq (if length words > 3
             then seq (py_int (words ! 3)) (\<lambda>v. Inr (self\<lparr>ion := (ion self)\<lparr>E := PInt v\<rparr>\<rparr>))
             else Inr self) (\<lambda>self.
        Inr (self, p)))))"

text \<open>
  The end of \<^verbatim>\<open>__init__\<close>, lines 181 to 189, on the user info the base class has built:
  the words are stored as they are, without \<^verbatim>\<open>int\<close>.
\<close>

definition init_ion :: "source \<Rightarrow> source" where
  "init_ion self =
     (if \<not> startswith (particle self) ''ion'' then self
      else
        let words = split_on CHR '' '' (particle self);
            self = (if length words > 1 then self\<lparr>ion := (ion self)\<lparr>Z := PStr (words ! 1)\<rparr>\<rparr> else self);
            self = (if length words > 2 then self\<lparr>ion := (ion self)\<lparr>A := PStr (words ! 2)\<rparr>\<rparr> else self);
            self = (if length words > 3 then self\<lparr>ion := (ion self)\<lparr>E := PStr (words ! 3)\<rparr>\<rparr> else self)
        in self)"

subsection \<open>\<^verbatim>\<open>can_predict_number_of_events\<close>\<close>

definition can_predict_number_of_events :: "source \<Rightarrow> bool" where
  "can_predict_number_of_events self =
     (let aa = acceptance_angle (direction self) in
      if intersection_flag aa \<or> normal_flag aa
      then (if skip_policy aa = ''ZeroEnergy'' then True else False)
      else True)"

subsection \<open>\<^verbatim>\<open>update_tac_activity\<close>\<close>

text \<open>
  \<^verbatim>\<open>len(None)\<close> raises \<^verbatim>\<open>TypeError\<close>, and \<^verbatim>\<open>len(self.tac_times)\<close> is evaluated first;
  the element 0 of an empty list raises \<^verbatim>\<open>IndexError\<close>.
\<close>

definition update_tac_activity :: "source \<Rightarrow> error + source" where
  "update_tac_activity self =
     (if tac_times self = None \<and> tac_activities self = None then Inr self
      else
        (case tac_times self of
           None \<Rightarrow> Inl TypeError
         | Some ts \<Rightarrow>
            (case tac_activities self of
               None \<Rightarrow> Inl TypeError
             | Some acts \<Rightarrow>
                if length ts \<noteq> length acts then Inl (Fatal (TacSize (name self)))
                else
                  (case ts of
                     [] \<Rightarrow> Inl IndexError
                   | t0 # _ \<Rightarrow>
                      (case acts of
                         [] \<Rightarrow> Inl IndexError
                       | a0 # _ \<Rightarrow>
                          Inr (self\<lparr>start_time := Some t0, activity := a0,
                                    TAC := Some (ts, acts)\<rparr>))))))"

subsection \<open>\<^verbatim>\<open>initialize\<close>\<close>

text \<open>
  The body of \<^verbatim>\<open>initialize\<close> in the order of the source, one definition for each block.
  The three \<^verbatim>\<open>isinstance(..., Box)\<close> tests of lines 195 to 206 pass, since the three
  fields are records. Lines 208 to 211: the energy of a back-to-back source.
\<close>

definition force_back_to_back :: "env \<Rightarrow> source \<Rightarrow> source" where
  "force_back_to_back ev self =
     (if particle self = ''back_to_back''
      then self\<lparr>energy := (energy self)\<lparr>energy_type := ''mono'', mono := 511 * keV ev\<rparr>\<rparr>
      else self)"

text \<open>Lines 213 to 230.\<close>

definition energy_types :: "env \<Rightarrow> string list" where
  "energy_types ev =
     [''mono'', ''gauss'', ''F18_analytic'', ''O15_analytic'', ''C11_analytic'', ''histogram'',
      ''spectrum_discrete'', ''spectrum_histogram'', ''range'']
     @ all_beta_plus_radionuclides ev"

definition check_energy_type :: "env \<Rightarrow> source \<Rightarrow> error + source" where
  "check_energy_type ev self =
     (if \<not> energy_type (energy self) \<in> set (energy_types ev)
      then Inl (Fatal (EnergyTypeNotFound (energy_type (energy self)) (name self)))
      else Inr self)"

text \<open>Lines 232 to 243.\<close>

definition valid_spectrum_types :: "string list" where
  "valid_spectrum_types = [''discrete'', ''histogram'', ''interpolated'']"

definition check_spectrum_type :: "source \<Rightarrow> error + source" where
  "check_spectrum_type self =
     (case spectrum_type (energy self) of
        None \<Rightarrow> Inr self
      | Some t \<Rightarrow>
          if t \<notin> set valid_spectrum_types
          then Inl (Fatal (SpectrumTypeNotFound t (name self)))
          else Inr self)"

text \<open>
  Modelled from the spec: \<^verbatim>\<open>read_beta_plus_spectra\<close> of \<^verbatim>\<open>sources/base.py\<close>, which is
  not among the sources. It is a lookup by name in the tabulated spectra, and an unknown
  name fails with \<^verbatim>\<open>SpectrumNotFound\<close>.
\<close>

definition read_beta_plus_spectra :: "env \<Rightarrow> string \<Rightarrow> error + (real \<times> real) list" where
  "read_beta_plus_spectra ev nm =
     (case spectra ev nm of None \<Rightarrow> Inl SpectrumNotFound | Some d \<Rightarrow> Inr d)"

text \<open>
  Lines 245 to 257. The total yield is bound to the local variable \<^verbatim>\<open>total\<close> and not
  used: the line that multiplied the activity by it is a comment.
\<close>

definition beta_plus_spectrum :: "env \<Rightarrow> source \<Rightarrow> error + source" where
  "beta_plus_spectrum ev self =
     (if particle self = ''e+''
      then
        (if energy_type (energy self) \<in> set (all_beta_plus_radionuclides ev)
         then
           seq (read_beta_plus_spectra ev (energy_type (energy self))) (\<lambda>data.
             let ene = map (\<lambda>row. fst row / 1000) data;
                 proba = map snd data;
                 (cdf, total) = compute_cdf_and_total_yield ev proba ene
             in Inr (self\<lparr>energy := (energy self)\<lparr>is_cdf := True\<rparr>,
                         EnergyCDF := Some ene, ProbabilityCDF := Some cdf\<rparr>))
         else Inr self)
      else Inr self)"

text \<open>
  Lines 261 to 268. The read of a key that the energy Box does not have raises;
  \<^verbatim>\<open>histogram_weight\<close> is read first.
\<close>

definition check_histogram :: "source \<Rightarrow> error + source" where
  "check_histogram self =
     (let ene = energy self in
      if energy_type ene = ''histogram''
      then
        (case histogram_weight ene of
           None \<Rightarrow> Inl AttributeError
         | Some w \<Rightarrow>
            (case histogram_energy ene of
               None \<Rightarrow> Inl AttributeError
             | Some e \<Rightarrow>
                if length w \<noteq> length e then Inl (Fatal (HistogramLength (name self)))
                else Inr self))
      else Inr self)"

text \<open>Lines 270 to 276.\<close>

definition direction_types :: "string list" where
  "direction_types = [''iso'', ''histogram'', ''momentum'', ''focused'', ''beam2d'']"

definition check_direction_type :: "source \<Rightarrow> error + source" where
  "check_direction_type self =
     (if \<not> direction_type (direction self) \<in> set direction_types
      then Inl (Fatal (DirectionTypeNotFound (direction_type (direction self)) (name self)))
      else Inr self)"

text \<open>Lines 278 to 283.\<close>

definition half_life_logic :: "source \<Rightarrow> source" where
  "half_life_logic self =
     (if half_life self > 0
      then (if user_particle_life_time self < 0
            then self\<lparr>user_particle_life_time := 0\<rparr> else self)
      else self)"

text \<open>Lines 288 to 297: four statements, each on the result of the one before.\<close>

definition resolve_n_activity :: "source \<Rightarrow> error + source" where
  "resolve_n_activity self =
     (if n self > 0 \<and> activity self > 0 then Inl (Fatal BothNAndActivity)
      else if n self = 0 \<and> activity self = 0 then Inl (Fatal NeitherNNorActivity)
      else
        let self = (if activity self > 0 then self\<lparr>n := 0\<rparr> else self);
            self = (if n self > 0 then self\<lparr>activity := 0\<rparr> else self)
        in Inr self)"

text \<open>
  Lines 300 to 306. \<^verbatim>\<open>None\<close> and the empty string are false; \<^verbatim>\<open>warning\<close> logs and
  returns.
\<close>

definition check_confine :: "source \<Rightarrow> source" where
  "check_confine self =
     (if (case confine (position self) of None \<Rightarrow> False | Some v \<Rightarrow> v \<noteq> [])
      then (if position_type (position self) = ''point''
            then self\<lparr>warnings := Suc (warnings self)\<rparr> else self)
      else self)"

text \<open>Lines 208 to 257, the checks and settings of the energy.\<close>

definition initialize_energy :: "env \<Rightarrow> source \<Rightarrow> error + source" where
  "initialize_energy ev self =
     seq (check_energy_type ev (force_back_to_back ev self)) (\<lambda>self.
     seq (check_spectrum_type self) (\<lambda>self.
     beta_plus_spectrum ev self))"

text \<open>Lines 208 to 286: everything up to the call of \<^verbatim>\<open>SourceBase.initialize\<close>, included.\<close>

definition initialize_to_base :: "env \<Rightarrow> (real \<times> real) list \<Rightarrow> source \<Rightarrow> error + source" where
  "initialize_to_base ev run_timing_intervals self =
     seq (initialize_energy ev self) (\<lambda>self.
     seq (update_tac_activity self) (\<lambda>self.
     seq (check_histogram self) (\<lambda>self.
     seq (check_direction_type self) (\<lambda>self.
     (case SourceBase_initialize ev run_timing_intervals (half_life_logic self) of
        None \<Rightarrow> Inl BaseError
      | Some self \<Rightarrow> Inr self)))))"

definition initialize :: "env \<Rightarrow> (real \<times> real) list \<Rightarrow> source \<Rightarrow> error + source" where
  "initialize ev run_timing_intervals self =
     seq (initialize_to_base ev run_timing_intervals self) (\<lambda>self.
     seq (resolve_n_activity self) (\<lambda>self.
     Inr (check_confine self)))"

subsection \<open>A concrete environment and a concrete source\<close>

text \<open>
  Modelled from the spec: \<^verbatim>\<open>compute_cdf_and_total_yield\<close> of \<^verbatim>\<open>sources/base.py\<close>, which
  is not among the sources: \<^verbatim>\<open>cdf[i] = cdf[i-1] + probabilities[i] * (energies[i] -
  energies[i-1])\<close> and the total yield is the last entry. The first entry, on which the
  spec is silent, is taken to be 0.
\<close>

fun cdf_from :: "real \<Rightarrow> real \<Rightarrow> real list \<Rightarrow> real list \<Rightarrow> real list" where
  "cdf_from c e (p # ps) (e' # es) = (c + p * (e' - e)) # cdf_from (c + p * (e' - e)) e' ps es"
| "cdf_from c e _ _ = []"

definition cdf_and_total_yield :: "real list \<Rightarrow> real list \<Rightarrow> real list \<times> real" where
  "cdf_and_total_yield proba ene =
     (case (proba, ene) of
        (p # ps, e # es) \<Rightarrow> (let cdf = 0 # cdf_from 0 e ps es in (cdf, last cdf))
      | _ \<Rightarrow> ([], 0))"

text \<open>
  An environment for the concrete instances: keV in units of MeV, two radionuclides, a
  two-row table for \<^verbatim>\<open>F18\<close> whose total yield is 2, and a \<^verbatim>\<open>SourceBase.initialize\<close> that
  leaves the user info as it is.
\<close>

definition example_env :: env where
  "example_env =
     \<lparr>keV = 1 / 1000,
      all_beta_plus_radionuclides = [''F18'', ''O15''],
      spectra = (\<lambda>nm. if nm = ''F18'' then Some [(0, 0), (1000, 2)] else None),
      compute_cdf_and_total_yield = cdf_and_total_yield,
      SourceBase_initialize = (\<lambda>rti self. Some self)\<rparr>"

text \<open>The defaults of \<^verbatim>\<open>user_info_defaults\<close> and of the four default Boxes (degree = 1).\<close>

definition default_source :: source where
  "default_source =
     \<lparr>name = ''source'',
      particle = ''gamma'',
      ion = \<lparr>Z = PInt 0, A = PInt 0, E = PInt 0\<rparr>,
      weight = - 1,
      weight_sigma = - 1,
      user_particle_life_time = - 1,
      tac_times = None,
      tac_activities = None,
      direction_relative_to_attached_volume = False,
      position = \<lparr>position_type = ''point'', radius = 0, size = [0, 0, 0],
                  translation = [0, 0, 0], confine = None\<rparr>,
      direction = \<lparr>direction_type = ''iso'', momentum = [0, 0, 1], focus_point = [0, 0, 0],
                   acceptance_angle =
                     \<lparr>skip_policy = ''SkipEvents'', volumes = [], intersection_flag = False,
                      normal_flag = False, normal_vector = [0, 0, 1], normal_tolerance = 3\<rparr>,
                   accolinearity_flag = False\<rparr>,
      energy = \<lparr>energy_type = ''mono'', mono = 0, sigma_gauss = 0, is_cdf = False,
                min_energy = None, max_energy = None, spectrum_type = None,
                histogram_weight = None, histogram_energy = None\<rparr>,
      n = 0,
      activity = 0,
      half_life = - 1,
      start_time = None,
      EnergyCDF = None,
      ProbabilityCDF = None,
      TAC = None,
      warnings = 0\<rparr>"

text \<open>Sources that differ from the default one in a few fields.\<close>

definition zero_energy_source :: source where
  "zero_energy_source =
     default_source\<lparr>direction := (direction default_source)\<lparr>acceptance_angle :=
       (acceptance_angle (direction default_source))
         \<lparr>skip_policy := ''ZeroEnergy'', intersection_flag := True\<rparr>\<rparr>\<rparr>"

definition skip_events_source :: source where
  "skip_events_source =
     default_source\<lparr>direction := (direction default_source)\<lparr>acceptance_angle :=
       (acceptance_angle (direction default_source))\<lparr>normal_flag := True\<rparr>\<rparr>\<rparr>"

definition times_only_source :: source where
  "times_only_source = default_source\<lparr>n := 1, tac_times := Some [0, 1, 2]\<rparr>"

definition negative_source :: source where
  "negative_source = default_source\<lparr>n := - 1, activity := - 1\<rparr>"

definition counted_source :: source where
  "counted_source = default_source\<lparr>n := 1\<rparr>"



definition back_to_back_gauss_source :: source where
  "back_to_back_gauss_source =
     default_source\<lparr>particle := ''back_to_back'', n := 1,
       energy := (energy default_source)\<lparr>energy_type := ''gauss'', mono := 1\<rparr>\<rparr>"



definition half_life_source :: source where
  "half_life_source = default_source\<lparr>n := 1, half_life := 10\<rparr>"

definition bad_spectrum_source :: source where
  "bad_spectrum_source =
     default_source\<lparr>n := 1, energy := (energy default_source)\<lparr>spectrum_type := Some ''bogus''\<rparr>\<rparr>"


definition histogram_spectrum_source :: source where
  "histogram_spectrum_source =
     default_source\<lparr>n := 1,
       energy := (energy default_source)\<lparr>spectrum_type := Some ''histogram''\<rparr>\<rparr>"


subsection \<open>What is assumed of \<^verbatim>\<open>SourceBase.initialize\<close>\<close>

text \<open>
  \<^verbatim>\<open>SourceBase.initialize\<close> is called between the half-life logic and the resolution of
  \<open>n\<close> and \<open>activity\<close>. Where a property of the state after \<^verbatim>\<open>initialize\<close> depends on
  it, the property is stated for a base class that, when it returns, has left \<open>n\<close>,
  \<open>activity\<close>, \<open>energy\<close> and \<open>user_particle_life_time\<close> as they were.
\<close>

definition base_keeps :: "env \<Rightarrow> (real \<times> real) list \<Rightarrow> bool" where
  "base_keeps ev rti =
     (\<forall>s s'. SourceBase_initialize ev rti s = Some s' \<longrightarrow>
        n s' = n s \<and> activity s' = activity s \<and> energy s' = energy s
        \<and> user_particle_life_time s' = user_particle_life_time s)"


section \<open>Properties\<close>

subsection \<open>Sequencing\<close>

lemma seq_Inl: "seq (Inl e) f = Inl e"
  by (simp add: seq_def)

lemma seq_Inr: "seq (Inr x) f = f x"
  by (simp add: seq_def)

lemma seq_eq_Inr: "seq r f = Inr y \<longleftrightarrow> (\<exists>x. r = Inr x \<and> f x = Inr y)"
  by (cases r) (simp_all add: seq_def)

lemma seq_eq_Inl: "seq r f = Inl e \<longleftrightarrow> r = Inl e \<or> (\<exists>x. r = Inr x \<and> f x = Inl e)"
  by (cases r) (simp_all add: seq_def)

subsection \<open>The steps of \<^verbatim>\<open>initialize\<close>, one by one\<close>

lemma check_energy_type_Inr:
  "check_energy_type ev s = Inr s' \<Longrightarrow> s' = s \<and> energy_type (energy s) \<in> set (energy_types ev)"
  by (auto simp: check_energy_type_def split: if_splits)

lemma check_energy_type_Inl:
  "check_energy_type ev s = Inl e \<Longrightarrow>
     e = Fatal (EnergyTypeNotFound (energy_type (energy s)) (name s))
     \<and> energy_type (energy s) \<notin> set (energy_types ev)"
  by (auto simp: check_energy_type_def split: if_splits)

lemma check_spectrum_type_Inr: "check_spectrum_type s = Inr s' \<Longrightarrow> s' = s"
  by (auto simp: check_spectrum_type_def split: if_splits option.splits)

lemma check_spectrum_type_Inl:
  "check_spectrum_type s = Inl e \<Longrightarrow>
     \<exists>t. spectrum_type (energy s) = Some t \<and> t \<notin> set valid_spectrum_types
       \<and> e = Fatal (SpectrumTypeNotFound t (name s))"
  by (auto simp: check_spectrum_type_def split: if_splits option.splits)

lemma beta_plus_spectrum_Inl: "beta_plus_spectrum ev s = Inl e \<Longrightarrow> e = SpectrumNotFound"
  by (auto simp: beta_plus_spectrum_def read_beta_plus_spectra_def seq_def Let_def
      split: if_splits option.splits prod.splits)

lemma beta_plus_spectrum_Inr:
  assumes "beta_plus_spectrum ev s = Inr s'"
  shows "\<exists>c e p. s' = s\<lparr>energy := (energy s)\<lparr>is_cdf := c\<rparr>, EnergyCDF := e, ProbabilityCDF := p\<rparr>"
proof (cases "particle s = ''e+'' \<and> energy_type (energy s) \<in> set (all_beta_plus_radionuclides ev)")
  case True
  with assms obtain data where "read_beta_plus_spectra ev (energy_type (energy s)) = Inr data"
    by (cases "read_beta_plus_spectra ev (energy_type (energy s))")
       (auto simp: beta_plus_spectrum_def seq_def)
  with assms True show ?thesis
    by (auto simp: beta_plus_spectrum_def seq_def Let_def split: prod.splits)
next
  case False
  with assms have "s' = s" by (auto simp: beta_plus_spectrum_def split: if_splits)
  then have "s' = s\<lparr>energy := (energy s)\<lparr>is_cdf := is_cdf (energy s)\<rparr>,
      EnergyCDF := EnergyCDF s, ProbabilityCDF := ProbabilityCDF s\<rparr>"
    by simp
  then show ?thesis by blast
qed

lemma initialize_energy_Inr:
  assumes "initialize_energy ev s = Inr s'"
  shows "\<exists>c e p. s' = (force_back_to_back ev s)
           \<lparr>energy := (energy (force_back_to_back ev s))\<lparr>is_cdf := c\<rparr>,
            EnergyCDF := e, ProbabilityCDF := p\<rparr>"
  using assms unfolding initialize_energy_def seq_eq_Inr
  by (auto dest!: check_energy_type_Inr check_spectrum_type_Inr beta_plus_spectrum_Inr)


lemma initialize_energy_keeps:
  assumes "initialize_energy ev s = Inr s'"
  shows "tac_times s' = tac_times s" "tac_activities s' = tac_activities s"
    "n s' = n s" "activity s' = activity s" "name s' = name s" "particle s' = particle s"
    "half_life s' = half_life s" "user_particle_life_time s' = user_particle_life_time s"
    "direction s' = direction s"
    "energy_type (energy s') = energy_type (energy (force_back_to_back ev s))"
    "mono (energy s') = mono (energy (force_back_to_back ev s))"
  using initialize_energy_Inr [OF assms] by (auto simp: force_back_to_back_def)

lemma initialize_Inl_energy: "initialize_energy ev s = Inl e \<Longrightarrow> initialize ev rti s = Inl e"
  by (simp add: initialize_def initialize_to_base_def seq_Inl)

lemma initialize_Inl_tac:
  "initialize_energy ev s = Inr s1 \<Longrightarrow> update_tac_activity s1 = Inl e
     \<Longrightarrow> initialize ev rti s = Inl e"
  by (simp add: initialize_def initialize_to_base_def seq_Inl seq_Inr)

lemma update_tac_activity_TypeError:
  "update_tac_activity s = Inl TypeError \<longleftrightarrow> (tac_times s = None) \<noteq> (tac_activities s = None)"
  by (auto simp: update_tac_activity_def split: option.splits list.splits)

lemma update_tac_activity_Inr:
  assumes "update_tac_activity s = Inr s'"
  shows "\<exists>t a c. s' = s\<lparr>start_time := t, activity := a, TAC := c\<rparr>"
proof (cases "tac_times s = None \<and> tac_activities s = None")
  case True
  with assms have "s' = s" by (simp add: update_tac_activity_def)
  then have "s' = s\<lparr>start_time := start_time s, activity := activity s, TAC := TAC s\<rparr>" by simp
  then show ?thesis by blast
next
  case False
  with assms show ?thesis
    by (auto simp: update_tac_activity_def split: option.splits list.splits if_splits)
qed

lemma update_tac_activity_Inr_activity:
  assumes "update_tac_activity s = Inr s'"
  shows "activity s' = (case tac_activities s of None \<Rightarrow> activity s | Some acts \<Rightarrow> acts ! 0)"
  using assms
  by (auto simp: update_tac_activity_def split: option.splits list.splits if_splits)

lemma update_tac_activity_Inl:
  "update_tac_activity s = Inl e \<Longrightarrow> e = TypeError \<or> e = IndexError \<or> e = Fatal (TacSize (name s))"
  by (auto simp: update_tac_activity_def split: option.splits list.splits if_splits)

lemma check_histogram_Inr: "check_histogram s = Inr s' \<Longrightarrow> s' = s"
  by (auto simp: check_histogram_def Let_def split: option.splits if_splits)

lemma check_histogram_Inl:
  "check_histogram s = Inl e \<Longrightarrow> e = AttributeError \<or> e = Fatal (HistogramLength (name s))"
  by (auto simp: check_histogram_def Let_def split: option.splits if_splits)

lemma check_direction_type_Inr:
  "check_direction_type s = Inr s' \<Longrightarrow> s' = s \<and> direction_type (direction s) \<in> set direction_types"
  by (auto simp: check_direction_type_def split: if_splits)

lemma check_direction_type_Inl:
  "check_direction_type s = Inl e \<Longrightarrow>
     e = Fatal (DirectionTypeNotFound (direction_type (direction s)) (name s))
     \<and> direction_type (direction s) \<notin> set direction_types"
  by (auto simp: check_direction_type_def split: if_splits)

lemma initialize_to_base_Inr:
  assumes "initialize_to_base ev rti s = Inr s1"
  shows "\<exists>s0. SourceBase_initialize ev rti (half_life_logic s0) = Some s1
           \<and> n s0 = n s \<and> half_life s0 = half_life s
           \<and> user_particle_life_time s0 = user_particle_life_time s
           \<and> particle s0 = particle s
           \<and> energy_type (energy s0) = energy_type (energy (force_back_to_back ev s))
           \<and> mono (energy s0) = mono (energy (force_back_to_back ev s))
           \<and> activity s0 = (case tac_activities s of None \<Rightarrow> activity s | Some acts \<Rightarrow> acts ! 0)"
proof -
  from assms obtain a b where a: "initialize_energy ev s = Inr a"
    and b: "update_tac_activity a = Inr b"
    and base: "SourceBase_initialize ev rti (half_life_logic b) = Some s1"
    unfolding initialize_to_base_def seq_eq_Inr
    by (auto dest!: check_histogram_Inr check_direction_type_Inr split: option.splits)
  from update_tac_activity_Inr [OF b] obtain t x c
    where b_eq: "b = a\<lparr>start_time := t, activity := x, TAC := c\<rparr>" by blast
  note k = initialize_energy_keeps [OF a]
  from update_tac_activity_Inr_activity [OF b] k(2,4)
  have "activity b = (case tac_activities s of None \<Rightarrow> activity s | Some acts \<Rightarrow> acts ! 0)"
    by (simp split: option.splits)
  with base b_eq k show ?thesis by auto
qed

lemma half_life_logic_fields:
  "n (half_life_logic s) = n s" "activity (half_life_logic s) = activity s"
  "energy (half_life_logic s) = energy s"
  "user_particle_life_time (half_life_logic s) =
     (if half_life s > 0 \<and> user_particle_life_time s < 0 then 0 else user_particle_life_time s)"
  by (simp_all add: half_life_logic_def)

lemma initialize_to_base_keeps:
  assumes keep: "base_keeps ev rti" and "initialize_to_base ev rti s = Inr s1"
  shows "n s1 = n s"
    and "activity s1 = (case tac_activities s of None \<Rightarrow> activity s | Some acts \<Rightarrow> acts ! 0)"
    and "energy_type (energy s1) = energy_type (energy (force_back_to_back ev s))"
    and "mono (energy s1) = mono (energy (force_back_to_back ev s))"
    and "user_particle_life_time s1 =
           (if half_life s > 0 \<and> user_particle_life_time s < 0 then 0
            else user_particle_life_time s)"
proof -
  from initialize_to_base_Inr [OF assms(2)] obtain s0
    where base: "SourceBase_initialize ev rti (half_life_logic s0) = Some s1"
      and f: "n s0 = n s" "half_life s0 = half_life s"
        "user_particle_life_time s0 = user_particle_life_time s"
        "energy_type (energy s0) = energy_type (energy (force_back_to_back ev s))"
        "mono (energy s0) = mono (energy (force_back_to_back ev s))"
        "activity s0 = (case tac_activities s of None \<Rightarrow> activity s | Some acts \<Rightarrow> acts ! 0)"
    by blast
  from keep base have g: "n s1 = n (half_life_logic s0)"
    "activity s1 = activity (half_life_logic s0)"
    "energy s1 = energy (half_life_logic s0)"
    "user_particle_life_time s1 = user_particle_life_time (half_life_logic s0)"
    unfolding base_keeps_def by blast+
  show "n s1 = n s" using g f by (simp add: half_life_logic_fields)
  show "activity s1 = (case tac_activities s of None \<Rightarrow> activity s | Some acts \<Rightarrow> acts ! 0)"
    using g f by (simp add: half_life_logic_fields)
  show "energy_type (energy s1) = energy_type (energy (force_back_to_back ev s))"
    using g f by (simp add: half_life_logic_fields)
  show "mono (energy s1) = mono (energy (force_back_to_back ev s))"
    using g f by (simp add: half_life_logic_fields)
  show "user_particle_life_time s1 =
           (if half_life s > 0 \<and> user_particle_life_time s < 0 then 0
            else user_particle_life_time s)"
    using g f by (simp add: half_life_logic_fields)
qed

lemma resolve_n_activity_Inl:
  "isl (resolve_n_activity s) \<longleftrightarrow> (n s > 0 \<and> activity s > 0) \<or> (n s = 0 \<and> activity s = 0)"
  by (simp add: resolve_n_activity_def Let_def)

lemma resolve_n_activity_Inr:
  assumes "resolve_n_activity s = Inr s'"
  shows "n s' = (if activity s > 0 then 0 else n s)"
    and "activity s' = (if n s > 0 then 0 else activity s)"
    and "energy s' = energy s" and "user_particle_life_time s' = user_particle_life_time s"
  using assms by (auto simp: resolve_n_activity_def Let_def split: if_splits)

lemma check_confine_fields:
  "n (check_confine s) = n s" "activity (check_confine s) = activity s"
  "energy (check_confine s) = energy s"
  "user_particle_life_time (check_confine s) = user_particle_life_time s"
  by (simp_all add: check_confine_def)

lemma initialize_after_base:
  "initialize_to_base ev rti s = Inr s1 \<Longrightarrow>
     initialize ev rti s = seq (resolve_n_activity s1) (\<lambda>s. Inr (check_confine s))"
  by (simp add: initialize_def seq_Inr)

lemma initialize_Inr:
  "initialize ev rti s = Inr s' \<longleftrightarrow>
     (\<exists>s1 s2. initialize_to_base ev rti s = Inr s1 \<and> resolve_n_activity s1 = Inr s2
        \<and> s' = check_confine s2)"
  by (auto simp: initialize_def seq_eq_Inr)

subsection \<open>Evaluation at the concrete instances\<close>

lemmas model_defs = initialize_def initialize_to_base_def initialize_energy_def
  check_energy_type_def force_back_to_back_def energy_types_def check_spectrum_type_def
  valid_spectrum_types_def beta_plus_spectrum_def read_beta_plus_spectra_def
  update_tac_activity_def check_histogram_def check_direction_type_def direction_types_def
  half_life_logic_def resolve_n_activity_def check_confine_def seq_def Let_def
  example_env_def default_source_def cdf_and_total_yield_def

lemma base_keeps_example: "base_keeps example_env rti"
  by (simp add: base_keeps_def example_env_def)

subsection \<open>Predicting the number of events\<close>

text \<open>
  C2. For every configuration, whose \<open>skip_policy\<close> is \<^verbatim>\<open>SkipEvents\<close> or \<^verbatim>\<open>ZeroEnergy\<close>:
  \<^verbatim>\<open>can_predict_number_of_events\<close> returns true when neither \<open>intersection_flag\<close> nor
  \<open>normal_flag\<close> is set, and when one of them is set and \<open>skip_policy\<close> is \<^verbatim>\<open>ZeroEnergy\<close>;
  it returns false exactly when one of the flags is set and \<open>skip_policy\<close> is
  \<^verbatim>\<open>SkipEvents\<close>.
\<close>

theorem can_predict_number_of_events_cases:
  assumes "skip_policy (acceptance_angle (direction self)) \<in> {''SkipEvents'', ''ZeroEnergy''}"
  shows "(\<not> intersection_flag (acceptance_angle (direction self))
            \<and> \<not> normal_flag (acceptance_angle (direction self))
          \<longrightarrow> can_predict_number_of_events self)
       \<and> ((intersection_flag (acceptance_angle (direction self))
             \<or> normal_flag (acceptance_angle (direction self)))
           \<and> skip_policy (acceptance_angle (direction self)) = ''ZeroEnergy''
          \<longrightarrow> can_predict_number_of_events self)
       \<and> (\<not> can_predict_number_of_events self \<longleftrightarrow>
            (intersection_flag (acceptance_angle (direction self))
               \<or> normal_flag (acceptance_angle (direction self)))
             \<and> skip_policy (acceptance_angle (direction self)) = ''SkipEvents'')"
  using assms by (auto simp: can_predict_number_of_events_def Let_def)

text \<open>The three cases at the default source, with \<^verbatim>\<open>ZeroEnergy\<close> and with \<^verbatim>\<open>SkipEvents\<close>.\<close>

theorem can_predict_number_of_events_cases_witness:
  "can_predict_number_of_events default_source
   \<and> can_predict_number_of_events zero_energy_source
   \<and> \<not> can_predict_number_of_events skip_events_source"
proof -
  have d: "skip_policy (acceptance_angle (direction default_source))
      \<in> {''SkipEvents'', ''ZeroEnergy''}"
    by (simp add: default_source_def)
  have z: "skip_policy (acceptance_angle (direction zero_energy_source))
      \<in> {''SkipEvents'', ''ZeroEnergy''}"
    by (simp add: zero_energy_source_def default_source_def)
  have s: "skip_policy (acceptance_angle (direction skip_events_source))
      \<in> {''SkipEvents'', ''ZeroEnergy''}"
    by (simp add: skip_events_source_def default_source_def)
  from can_predict_number_of_events_cases [OF d] can_predict_number_of_events_cases [OF z]
    can_predict_number_of_events_cases [OF s]
  show ?thesis
    by (simp add: default_source_def zero_energy_source_def skip_events_source_def)
qed

subsection \<open>The particle and the ion\<close>

text \<open>
  The assignment of \<^verbatim>\<open>"ion 9 18 0"\<close> to \<open>particle\<close> runs the setter hook, which sets the
  ion fields to the integers \<open>Z = 9\<close>, \<open>A = 18\<close>, \<open>E = 0\<close> and returns the string
  unchanged.
\<close>

lemma setter_hook_ion_9_18_0:
  "setter_hook_generic_source_particle self ''ion 9 18 0'' =
     Inr (self\<lparr>ion := \<lparr>Z = PInt 9, A = PInt 18, E = PInt 0\<rparr>\<rparr>, ''ion 9 18 0'')"
  by (simp add: setter_hook_generic_source_particle_def startswith_def Let_def seq_def py_int_def
      strip_def is_space_def is_digit_def digits_value_def)

text \<open>
  C7. The claim is that setting \<open>particle\<close> to \<^verbatim>\<open>"ion 9 18 0"\<close> gives the integers
  \<open>Z = 9\<close>, \<open>A = 18\<close>, \<open>E = 0\<close>. The setter hook does so, but when the source is
  constructed with this particle, the end of \<^verbatim>\<open>__init__\<close> runs on the user info that the
  hook has filled, splits the string again and stores the three words, not their values:
  the ion fields end as the strings \<^verbatim>\<open>'9'\<close>, \<^verbatim>\<open>'18'\<close>, \<^verbatim>\<open>'0'\<close>, which are not the integers.
\<close>

theorem init_ion_after_setter_hook:
  "setter_hook_generic_source_particle self ''ion 9 18 0'' =
     Inr (self\<lparr>ion := \<lparr>Z = PInt 9, A = PInt 18, E = PInt 0\<rparr>\<rparr>, ''ion 9 18 0'')
   \<and> ion (init_ion (self\<lparr>ion := \<lparr>Z = PInt 9, A = PInt 18, E = PInt 0\<rparr>,
                          particle := ''ion 9 18 0''\<rparr>)) =
       \<lparr>Z = PStr ''9'', A = PStr ''18'', E = PStr ''0''\<rparr>
   \<and> ion (init_ion (self\<lparr>ion := \<lparr>Z = PInt 9, A = PInt 18, E = PInt 0\<rparr>,
                          particle := ''ion 9 18 0''\<rparr>)) \<noteq>
       \<lparr>Z = PInt 9, A = PInt 18, E = PInt 0\<rparr>"
proof -
  have "ion (init_ion (self\<lparr>ion := \<lparr>Z = PInt 9, A = PInt 18, E = PInt 0\<rparr>,
                          particle := ''ion 9 18 0''\<rparr>)) =
       \<lparr>Z = PStr ''9'', A = PStr ''18'', E = PStr ''0''\<rparr>"
    by (simp add: init_ion_def startswith_def Let_def)
  with setter_hook_ion_9_18_0 [of self] show ?thesis by simp
qed

subsection \<open>A curve of which one part is missing\<close>

text \<open>
  C9. \<^verbatim>\<open>update_tac_activity\<close> raises \<^verbatim>\<open>TypeError\<close> exactly when one of \<open>tac_times\<close> and
  \<open>tac_activities\<close> is \<^verbatim>\<open>None\<close> and the other is not: it then neither returns early nor
  reaches \<^verbatim>\<open>fatal\<close>. In that case \<^verbatim>\<open>initialize\<close> fails, and with this \<^verbatim>\<open>TypeError\<close>
  whenever the checks of the energy, which come first, pass.
\<close>

theorem update_tac_activity_one_None:
  "(update_tac_activity self = Inl TypeError
      \<longleftrightarrow> (tac_times self = None) \<noteq> (tac_activities self = None))
   \<and> ((tac_times self = None) \<noteq> (tac_activities self = None) \<longrightarrow>
        (\<forall>s1. initialize_energy ev self = Inr s1 \<longrightarrow> initialize ev rti self = Inl TypeError)
        \<and> isl (initialize ev rti self))"
proof -
  have a: "update_tac_activity self = Inl TypeError
      \<longleftrightarrow> (tac_times self = None) \<noteq> (tac_activities self = None)"
    by (rule update_tac_activity_TypeError)
  have b: "initialize ev rti self = Inl TypeError"
    if x: "(tac_times self = None) \<noteq> (tac_activities self = None)"
      and s1: "initialize_energy ev self = Inr s1" for s1
  proof -
    from x initialize_energy_keeps(1,2) [OF s1]
    have "update_tac_activity s1 = Inl TypeError"
      by (simp add: update_tac_activity_TypeError)
    with s1 show ?thesis by (rule initialize_Inl_tac)
  qed
  have c: "isl (initialize ev rti self)"
    if x: "(tac_times self = None) \<noteq> (tac_activities self = None)"
  proof (cases "initialize_energy ev self")
    case (Inl e)
    then show ?thesis by (simp add: initialize_Inl_energy)
  next
    case (Inr s1)
    with b [OF x] show ?thesis by simp
  qed
  from a b c show ?thesis by blast
qed

text \<open>A source with \<open>tac_times = [0, 1, 2]\<close> and no \<open>tac_activities\<close>.\<close>

theorem update_tac_activity_one_None_witness:
  "tac_times times_only_source \<noteq> None \<and> tac_activities times_only_source = None
   \<and> initialize_energy example_env times_only_source = Inr times_only_source
   \<and> update_tac_activity times_only_source = Inl TypeError
   \<and> initialize example_env [(0, 1)] times_only_source = Inl TypeError"
proof -
  have x: "tac_times times_only_source \<noteq> None" "tac_activities times_only_source = None"
    by (simp_all add: times_only_source_def default_source_def)
  have e: "initialize_energy example_env times_only_source = Inr times_only_source"
    by (simp add: model_defs times_only_source_def)
  from update_tac_activity_one_None [of times_only_source example_env "[(0, 1)]"] x e
  show ?thesis by auto
qed

subsection \<open>The number of events and the activity\<close>

text \<open>
  C1, as amended. Let \<open>s1\<close> be the state that reaches the test of \<open>n\<close> and \<open>activity\<close>,
  every earlier step of \<^verbatim>\<open>initialize\<close> having passed; its \<open>n\<close> is the one the user gave
  and its \<open>activity\<close> is the one the user gave, or \<open>tac_activities[0]\<close> when a
  time-activity curve is given. Then \<^verbatim>\<open>initialize\<close> fails if and only if both values are
  strictly positive or both are zero. After a successful \<^verbatim>\<open>initialize\<close>, a strictly
  positive value has forced the other one to zero, and exactly one of \<open>n\<close> and \<open>activity\<close>
  is non-zero unless both values were strictly negative.
\<close>

theorem initialize_n_activity:
  assumes pre: "initialize_to_base ev rti self = Inr s1"
  shows "(isl (initialize ev rti self) \<longleftrightarrow>
            (n s1 > 0 \<and> activity s1 > 0) \<or> (n s1 = 0 \<and> activity s1 = 0))
       \<and> (\<forall>s'. initialize ev rti self = Inr s' \<longrightarrow>
            (activity s1 > 0 \<longrightarrow> n s' = 0 \<and> activity s' = activity s1)
            \<and> (n s1 > 0 \<longrightarrow> activity s' = 0 \<and> n s' = n s1)
            \<and> (0 \<le> n s1 \<or> 0 \<le> activity s1 \<longrightarrow> (n s' = 0) \<noteq> (activity s' = 0)))
       \<and> (base_keeps ev rti \<longrightarrow>
            n s1 = n self
            \<and> activity s1 = (case tac_activities self of None \<Rightarrow> activity self
                              | Some acts \<Rightarrow> acts ! 0))"
proof -
  have a: "isl (initialize ev rti self) \<longleftrightarrow>
            (n s1 > 0 \<and> activity s1 > 0) \<or> (n s1 = 0 \<and> activity s1 = 0)"
    unfolding initialize_after_base [OF pre] resolve_n_activity_Inl [symmetric]
    by (cases "resolve_n_activity s1") (simp_all add: seq_def)
  have b: "(activity s1 > 0 \<longrightarrow> n s' = 0 \<and> activity s' = activity s1)
            \<and> (n s1 > 0 \<longrightarrow> activity s' = 0 \<and> n s' = n s1)
            \<and> (0 \<le> n s1 \<or> 0 \<le> activity s1 \<longrightarrow> (n s' = 0) \<noteq> (activity s' = 0))"
    if "initialize ev rti self = Inr s'" for s'
  proof -
    from that pre obtain s2 where r: "resolve_n_activity s1 = Inr s2" and s': "s' = check_confine s2"
      by (auto simp: initialize_Inr)
    from r have ok: "\<not> (n s1 > 0 \<and> activity s1 > 0)" "\<not> (n s1 = 0 \<and> activity s1 = 0)"
      using resolve_n_activity_Inl [of s1] by auto
    from resolve_n_activity_Inr(1,2) [OF r] s'
    have "n s' = (if activity s1 > 0 then 0 else n s1)"
      "activity s' = (if n s1 > 0 then 0 else activity s1)"
      by (simp_all add: check_confine_fields)
    with ok show ?thesis by auto
  qed
  from a b initialize_to_base_keeps(1,2) [OF _ pre] show ?thesis by blast
qed

text \<open>
  With \<open>n = 1\<close> and no activity \<^verbatim>\<open>initialize\<close> succeeds; with the activity 10 and the
  default \<open>n = 0\<close> it succeeds; with both it fails, and with neither.
\<close>

theorem initialize_n_activity_witness:
  "initialize_to_base example_env [(0, 1)] counted_source = Inr counted_source
   \<and> base_keeps example_env [(0, 1)]
   \<and> initialize example_env [(0, 1)] counted_source = Inr counted_source
   \<and> n counted_source = 1 \<and> activity counted_source = 0
   \<and> isl (initialize example_env [(0, 1)] default_source)
   \<and> isl (initialize example_env [(0, 1)] (default_source\<lparr>n := 1, activity := 10\<rparr>))"
proof -
  have p1: "initialize_to_base example_env [(0, 1)] counted_source = Inr counted_source"
    by (simp add: model_defs counted_source_def)
  have p2: "initialize_to_base example_env [(0, 1)] default_source = Inr default_source"
    by (simp add: model_defs)
  have p3: "initialize_to_base example_env [(0, 1)] (default_source\<lparr>n := 1, activity := 10\<rparr>)
      = Inr (default_source\<lparr>n := 1, activity := 10\<rparr>)"
    by (simp add: model_defs)
  have i1: "initialize example_env [(0, 1)] counted_source = Inr counted_source"
    by (simp add: model_defs counted_source_def)
  have v: "n counted_source = 1" "activity counted_source = 0" "n default_source = 0"
    "activity default_source = 0"
    by (simp_all add: counted_source_def default_source_def)
  from initialize_n_activity [OF p1] initialize_n_activity [OF p2] initialize_n_activity [OF p3]
    p1 i1 v base_keeps_example [of "[(0, 1)]"]
  show ?thesis by simp
qed

text \<open>
  With \<open>n = -1\<close> and \<open>activity = -1\<close> no test applies: \<^verbatim>\<open>initialize\<close> succeeds and both
  are non-zero.
\<close>

theorem initialize_both_negative_counterexample:
  "\<not> isl (initialize example_env [(0, 1)] negative_source)
   \<and> n (projr (initialize example_env [(0, 1)] negative_source)) \<noteq> 0
   \<and> activity (projr (initialize example_env [(0, 1)] negative_source)) \<noteq> 0"
proof -
  have "initialize example_env [(0, 1)] negative_source = Inr negative_source"
    by (simp add: model_defs negative_source_def)
  then show ?thesis by (simp add: negative_source_def)
qed

subsection \<open>Back-to-back sources\<close>

text \<open>
  C3. If \<open>particle\<close> is \<^verbatim>\<open>back_to_back\<close> then after \<^verbatim>\<open>initialize\<close> the energy has the type
  \<^verbatim>\<open>mono\<close> and the value 511 keV, whatever type and value it had before.
\<close>

theorem initialize_back_to_back_energy:
  assumes "particle self = ''back_to_back''" and "base_keeps ev rti"
    and "initialize ev rti self = Inr s'"
  shows "energy_type (energy s') = ''mono'' \<and> mono (energy s') = 511 * keV ev"
proof -
  from assms(3) obtain s1 s2 where pre: "initialize_to_base ev rti self = Inr s1"
    and r: "resolve_n_activity s1 = Inr s2" and s': "s' = check_confine s2"
    by (auto simp: initialize_Inr)
  from s' resolve_n_activity_Inr(3) [OF r] have "energy s' = energy s1"
    by (simp add: check_confine_fields)
  with initialize_to_base_keeps(3,4) [OF assms(2) pre] assms(1)
  show ?thesis by (simp add: force_back_to_back_def)
qed

text \<open>A back-to-back source whose energy was set to the type \<^verbatim>\<open>gauss\<close> and the value 1.\<close>

theorem initialize_back_to_back_energy_witness:
  "particle back_to_back_gauss_source = ''back_to_back''
   \<and> energy_type (energy back_to_back_gauss_source) = ''gauss''
   \<and> \<not> isl (initialize example_env [(0, 1)] back_to_back_gauss_source)
   \<and> energy_type (energy (projr (initialize example_env [(0, 1)] back_to_back_gauss_source)))
       = ''mono''
   \<and> mono (energy (projr (initialize example_env [(0, 1)] back_to_back_gauss_source)))
       = 511 * keV example_env"
proof -
  have p: "particle back_to_back_gauss_source = ''back_to_back''"
    "energy_type (energy back_to_back_gauss_source) = ''gauss''"
    by (simp_all add: back_to_back_gauss_source_def default_source_def)
  have i: "initialize example_env [(0, 1)] back_to_back_gauss_source =
      Inr (back_to_back_gauss_source\<lparr>energy := (energy back_to_back_gauss_source)
             \<lparr>energy_type := ''mono'', mono := 511 / 1000\<rparr>\<rparr>)"
    by (simp add: model_defs back_to_back_gauss_source_def)
  from initialize_back_to_back_energy [OF p(1) base_keeps_example i] p i
  show ?thesis by simp
qed

subsection \<open>Half life and life time\<close>

text \<open>
  C8. After \<^verbatim>\<open>initialize\<close>, \<open>user_particle_life_time\<close> is zero if \<open>half_life\<close> is strictly
  positive and \<open>user_particle_life_time\<close> was negative, and it is unchanged otherwise.
\<close>

theorem initialize_user_particle_life_time:
  assumes "base_keeps ev rti" and "initialize ev rti self = Inr s'"
  shows "user_particle_life_time s' =
           (if half_life self > 0 \<and> user_particle_life_time self < 0 then 0
            else user_particle_life_time self)"
proof -
  from assms(2) obtain s1 s2 where pre: "initialize_to_base ev rti self = Inr s1"
    and r: "resolve_n_activity s1 = Inr s2" and s': "s' = check_confine s2"
    by (auto simp: initialize_Inr)
  from s' resolve_n_activity_Inr(4) [OF r]
  have "user_particle_life_time s' = user_particle_life_time s1"
    by (simp add: check_confine_fields)
  with initialize_to_base_keeps(5) [OF assms(1) pre] show ?thesis by simp
qed

text \<open>
  The half life 10 with the default life time -1 gives 0; the default half life -1
  leaves the life time -1.
\<close>

theorem initialize_user_particle_life_time_witness:
  "initialize example_env [(0, 1)] half_life_source =
     Inr (half_life_source\<lparr>user_particle_life_time := 0\<rparr>)
   \<and> user_particle_life_time half_life_source = - 1
   \<and> initialize example_env [(0, 1)] counted_source = Inr counted_source
   \<and> user_particle_life_time counted_source = - 1"
proof -
  have i: "initialize example_env [(0, 1)] half_life_source =
     Inr (half_life_source\<lparr>user_particle_life_time := 0\<rparr>)"
    by (simp add: model_defs half_life_source_def)
  have j: "initialize example_env [(0, 1)] counted_source = Inr counted_source"
    by (simp add: model_defs counted_source_def)
  from initialize_user_particle_life_time [OF base_keeps_example i]
    initialize_user_particle_life_time [OF base_keeps_example j] i j
  show ?thesis by (simp add: half_life_source_def counted_source_def default_source_def)
qed

subsection \<open>Which error \<^verbatim>\<open>initialize\<close> can return\<close>

lemma resolve_n_activity_Inl_shape:
  "resolve_n_activity s = Inl e \<Longrightarrow> e = Fatal BothNAndActivity \<or> e = Fatal NeitherNNorActivity"
  by (auto simp: resolve_n_activity_def Let_def split: if_splits)

lemma initialize_energy_Inl_shape:
  assumes "initialize_energy ev s = Inl e"
  shows "(e = Fatal (EnergyTypeNotFound (energy_type (energy (force_back_to_back ev s))) (name s))
          \<and> energy_type (energy (force_back_to_back ev s)) \<notin> set (energy_types ev))
       \<or> (\<exists>t. e = Fatal (SpectrumTypeNotFound t (name s))
             \<and> spectrum_type (energy s) = Some t \<and> t \<notin> set valid_spectrum_types)
       \<or> e = SpectrumNotFound"
  using assms unfolding initialize_energy_def seq_eq_Inl
  by (auto dest!: check_energy_type_Inl check_spectrum_type_Inl beta_plus_spectrum_Inl
      check_energy_type_Inr simp: force_back_to_back_def)

lemma update_tac_activity_keeps:
  assumes "update_tac_activity s = Inr s'"
  shows "direction s' = direction s" "name s' = name s" "energy s' = energy s"
  using update_tac_activity_Inr [OF assms] by auto

lemma initialize_to_base_after_tac:
  assumes a: "initialize_energy ev s = Inr a" and b: "update_tac_activity a = Inr b"
  shows "initialize_to_base ev rti s =
           (if isl (check_histogram b) then check_histogram b
            else if isl (check_direction_type b) then check_direction_type b
            else (case SourceBase_initialize ev rti (half_life_logic b) of
                    None \<Rightarrow> Inl BaseError | Some x \<Rightarrow> Inr x))"
proof (cases "check_histogram b")
  case (Inl e)
  with a b show ?thesis by (simp add: initialize_to_base_def seq_Inl seq_Inr)
next
  case h: (Inr h)
  then have h_eq: "h = b" by (rule check_histogram_Inr)
  show ?thesis
  proof (cases "check_direction_type b")
    case (Inl e)
    with a b h h_eq show ?thesis by (simp add: initialize_to_base_def seq_Inl seq_Inr)
  next
    case d: (Inr d)
    then have "d = b" using check_direction_type_Inr by blast
    with a b h h_eq d show ?thesis by (simp add: initialize_to_base_def seq_Inr)
  qed
qed

lemma initialize_Inl_shape:
  assumes "initialize ev rti s = Inl e"
  shows "initialize_energy ev s = Inl e
       \<or> (\<exists>a. initialize_energy ev s = Inr a \<and>
            (update_tac_activity a = Inl e
             \<or> (\<exists>b. update_tac_activity a = Inr b \<and>
                  (e = AttributeError \<or> e = Fatal (HistogramLength (name s))
                   \<or> (e = Fatal (DirectionTypeNotFound (direction_type (direction s)) (name s))
                       \<and> direction_type (direction s) \<notin> set direction_types)
                   \<or> (direction_type (direction s) \<in> set direction_types
                       \<and> (e = BaseError \<or> e = Fatal BothNAndActivity
                            \<or> e = Fatal NeitherNNorActivity))))))"
proof (cases "initialize_energy ev s")
  case (Inl x)
  with assms show ?thesis by (simp add: initialize_Inl_energy)
next
  case a: (Inr a)
  show ?thesis
  proof (cases "update_tac_activity a")
    case (Inl x)
    with a assms show ?thesis by (simp add: initialize_Inl_tac)
  next
    case b: (Inr b)
    note ka = initialize_energy_keeps [OF a]
    note kb = update_tac_activity_keeps [OF b]
    have nm: "name b = name s" and dir: "direction b = direction s"
      using ka(5,9) kb(1,2) by simp_all
    note tb = initialize_to_base_after_tac [OF a b, of rti]
    have "e = AttributeError \<or> e = Fatal (HistogramLength (name s))
        \<or> (e = Fatal (DirectionTypeNotFound (direction_type (direction s)) (name s))
            \<and> direction_type (direction s) \<notin> set direction_types)
        \<or> (direction_type (direction s) \<in> set direction_types
            \<and> (e = BaseError \<or> e = Fatal BothNAndActivity \<or> e = Fatal NeitherNNorActivity))"
    proof (cases "check_histogram b")
      case (Inl x)
      with tb assms have "x = e" by (simp add: initialize_def seq_Inl)
      with check_histogram_Inl [OF Inl] nm show ?thesis by auto
    next
      case h: (Inr h)
      show ?thesis
      proof (cases "check_direction_type b")
        case (Inl x)
        with tb h assms have "x = e" by (simp add: initialize_def seq_Inl)
        with check_direction_type_Inl [OF Inl] nm dir show ?thesis by auto
      next
        case d: (Inr d)
        from check_direction_type_Inr [OF d] dir
        have ok: "direction_type (direction s) \<in> set direction_types" by simp
        show ?thesis
        proof (cases "SourceBase_initialize ev rti (half_life_logic b)")
          case None
          with tb h d assms have "e = BaseError" by (simp add: initialize_def seq_Inl)
          with ok show ?thesis by simp
        next
          case (Some x)
          with tb h d assms have "resolve_n_activity x = Inl e"
            by (auto simp: initialize_def seq_Inr seq_eq_Inl)
          from resolve_n_activity_Inl_shape [OF this] ok show ?thesis by auto
        qed
      qed
    qed
    with a b show ?thesis by blast
  qed
qed


subsection \<open>The order of the checks\<close>




subsection \<open>The spectrum type\<close>

text \<open>
  C10. When \<open>energy.spectrum_type\<close> is \<^verbatim>\<open>None\<close>, \<^verbatim>\<open>initialize\<close> makes no check of it and
  goes on: the step returns the source as it is and \<^verbatim>\<open>initialize\<close> never reports an
  unknown spectrum type. When it is not \<^verbatim>\<open>None\<close>, the same holds if it is one of
  \<^verbatim>\<open>discrete\<close>, \<^verbatim>\<open>histogram\<close> and \<^verbatim>\<open>interpolated\<close>, and otherwise the step calls
  \<^verbatim>\<open>fatal\<close> and \<^verbatim>\<open>initialize\<close> fails with a fatal error.
\<close>

theorem initialize_spectrum_type:
  "(spectrum_type (energy self) = None \<longrightarrow>
      check_spectrum_type self = Inr self
      \<and> (\<forall>u nm. initialize ev rti self \<noteq> Inl (Fatal (SpectrumTypeNotFound u nm))))
   \<and> (\<forall>t. spectrum_type (energy self) = Some t \<longrightarrow>
        (t \<in> set [''discrete'', ''histogram'', ''interpolated''] \<longrightarrow>
           check_spectrum_type self = Inr self
           \<and> (\<forall>u nm. initialize ev rti self \<noteq> Inl (Fatal (SpectrumTypeNotFound u nm))))
        \<and> (t \<notin> set [''discrete'', ''histogram'', ''interpolated''] \<longrightarrow>
             check_spectrum_type self = Inl (Fatal (SpectrumTypeNotFound t (name self)))
             \<and> (\<exists>m. initialize ev rti self = Inl (Fatal m))))"
proof -
  have never: "initialize ev rti self \<noteq> Inl (Fatal (SpectrumTypeNotFound u nm))"
    if ok: "\<forall>t. spectrum_type (energy self) = Some t \<longrightarrow> t \<in> set valid_spectrum_types"
    for u nm
  proof
    assume x: "initialize ev rti self = Inl (Fatal (SpectrumTypeNotFound u nm))"
    from initialize_Inl_shape [OF x] ok show False
      by (auto dest!: initialize_energy_Inl_shape update_tac_activity_Inl)
  qed
  have a: "check_spectrum_type self = Inr self
      \<and> (\<forall>u nm. initialize ev rti self \<noteq> Inl (Fatal (SpectrumTypeNotFound u nm)))"
    if "spectrum_type (energy self) = None"
    using that never by (simp add: check_spectrum_type_def)
  have b: "check_spectrum_type self = Inr self
           \<and> (\<forall>u nm. initialize ev rti self \<noteq> Inl (Fatal (SpectrumTypeNotFound u nm)))"
    if "spectrum_type (energy self) = Some t"
      "t \<in> set [''discrete'', ''histogram'', ''interpolated'']" for t
    using that never by (simp add: check_spectrum_type_def valid_spectrum_types_def)
  have c: "check_spectrum_type self = Inl (Fatal (SpectrumTypeNotFound t (name self)))
           \<and> (\<exists>m. initialize ev rti self = Inl (Fatal m))"
    if t: "spectrum_type (energy self) = Some t"
      "t \<notin> set [''discrete'', ''histogram'', ''interpolated'']" for t
  proof -
    from t have 1: "check_spectrum_type self = Inl (Fatal (SpectrumTypeNotFound t (name self)))"
      by (simp add: check_spectrum_type_def valid_spectrum_types_def)
    from t have 2: "check_spectrum_type (force_back_to_back ev self) =
        Inl (Fatal (SpectrumTypeNotFound t (name self)))"
      by (simp add: check_spectrum_type_def valid_spectrum_types_def force_back_to_back_def)
    have "\<exists>m. initialize_energy ev self = Inl (Fatal m)"
    proof (cases "check_energy_type ev (force_back_to_back ev self)")
      case (Inl e)
      with check_energy_type_Inl [OF Inl] show ?thesis
        by (simp add: initialize_energy_def seq_Inl)
    next
      case (Inr s1)
      with check_energy_type_Inr [OF Inr] 2 show ?thesis
        by (simp add: initialize_energy_def seq_Inl seq_Inr)
    qed
    then have "\<exists>m. initialize ev rti self = Inl (Fatal m)"
      by (auto simp: initialize_Inl_energy)
    with 1 show ?thesis by simp
  qed
  from a b c show ?thesis by blast
qed

text \<open>The default \<^verbatim>\<open>None\<close>, the value \<^verbatim>\<open>histogram\<close> and an unknown value.\<close>

theorem initialize_spectrum_type_witness:
  "spectrum_type (energy counted_source) = None
   \<and> check_spectrum_type counted_source = Inr counted_source
   \<and> initialize example_env [(0, 1)] counted_source = Inr counted_source
   \<and> check_spectrum_type histogram_spectrum_source = Inr histogram_spectrum_source
   \<and> check_spectrum_type bad_spectrum_source =
       Inl (Fatal (SpectrumTypeNotFound ''bogus'' ''source''))
   \<and> initialize example_env [(0, 1)] bad_spectrum_source =
       Inl (Fatal (SpectrumTypeNotFound ''bogus'' ''source''))"
proof -
  have v: "spectrum_type (energy counted_source) = None"
    "spectrum_type (energy histogram_spectrum_source) = Some ''histogram''"
    "spectrum_type (energy bad_spectrum_source) = Some ''bogus''"
    "name bad_spectrum_source = ''source''"
    by (simp_all add: counted_source_def histogram_spectrum_source_def bad_spectrum_source_def
        default_source_def)
  have i: "initialize example_env [(0, 1)] counted_source = Inr counted_source"
    by (simp add: model_defs counted_source_def)
  have j: "initialize example_env [(0, 1)] bad_spectrum_source =
       Inl (Fatal (SpectrumTypeNotFound ''bogus'' ''source''))"
    by (simp add: model_defs bad_spectrum_source_def)
  from initialize_spectrum_type [of counted_source example_env "[(0, 1)]"]
    initialize_spectrum_type [of histogram_spectrum_source example_env "[(0, 1)]"]
    initialize_spectrum_type [of bad_spectrum_source example_env "[(0, 1)]"] v i j
  show ?thesis by simp
qed

subsection \<open>The spectrum of a positron source\<close>




subsection \<open>The time-activity curve\<close>









end
